theory Spec2Isabelle
  imports Complex_Main "HOL-Library.Char_ord" "HOL-Library.List_Lexorder"
begin

section \<open>Numbers\<close>

text \<open>
  Every quantity, cost and price of the bot is a Python \<open>Decimal\<close>.  They are modelled
  as exact rationals (\<^typ>\<open>rat\<close>): addition, subtraction, multiplication and comparison
  of the decimals that occur here are exact, and a quotient is the exact quotient (the
  rounding of \<open>Decimal\<close> division to 28 significant digits is not modelled).
  \<open>Decimal("0.99")\<close> is \<open>99 / 100\<close>.
\<close>

type_synonym decimal = rat

section \<open>Domain model (models/position.py)\<close>

record position =
  qty_yes :: decimal
  cost_yes :: decimal
  avg_yes :: decimal
  qty_no :: decimal
  cost_no :: decimal
  avg_no :: decimal
  pair_cost :: decimal
  locked_profit :: decimal
  delta :: decimal

text \<open>
  The validators of \<open>Position\<close>.  They run in field order whenever a \<open>Position\<close> is
  constructed, each one on the values validated so far, and each one discards the value
  that was supplied for its own field.
\<close>

definition calculate_averages :: "decimal \<Rightarrow> decimal \<Rightarrow> decimal" where
  "calculate_averages qty cost = (if qty > 0 then cost / qty else 0)"

definition calculate_delta :: "decimal \<Rightarrow> decimal \<Rightarrow> decimal" where
  "calculate_delta qy qn = qy - qn"

definition calculate_pair_cost :: "decimal \<Rightarrow> decimal \<Rightarrow> decimal" where
  "calculate_pair_cost ay an = ay + an"

definition calculate_locked_profit :: "decimal \<Rightarrow> decimal \<Rightarrow> decimal \<Rightarrow> decimal" where
  "calculate_locked_profit qy qn pc =
     (let paired_qty = min qy qn
      in if paired_qty > 0 \<and> pc < 1 then paired_qty * (1 - pc) else 0)"

text \<open>
  \<open>Position(**kw)\<close>: the constructor applied to a dictionary that supplies all nine
  numeric fields (\<open>last_updated\<close>, which no arithmetic reads, is left out of the model).
\<close>

definition Position :: "position \<Rightarrow> position" where
  "Position kw =
     (let ay = calculate_averages (qty_yes kw) (cost_yes kw);
          an = calculate_averages (qty_no kw) (cost_no kw);
          pc = calculate_pair_cost ay an;
          lp = calculate_locked_profit (qty_yes kw) (qty_no kw) pc;
          d = calculate_delta (qty_yes kw) (qty_no kw)
      in \<lparr>qty_yes = qty_yes kw, cost_yes = cost_yes kw, avg_yes = ay,
          qty_no = qty_no kw, cost_no = cost_no kw, avg_no = an,
          pair_cost = pc, locked_profit = lp, delta = d\<rparr>)"

text \<open>\<open>Position()\<close>: every field at its default \<open>Decimal("0")\<close>, then validated.\<close>

definition Position_default :: position where
  "Position_default =
     Position \<lparr>qty_yes = 0, cost_yes = 0, avg_yes = 0, qty_no = 0, cost_no = 0, avg_no = 0,
               pair_cost = 0, locked_profit = 0, delta = 0\<rparr>"

record OrderBookEntry =
  price :: decimal
  level_size :: decimal

record OrderBook =
  yes_bids :: "OrderBookEntry list"
  yes_asks :: "OrderBookEntry list"
  no_bids :: "OrderBookEntry list"
  no_asks :: "OrderBookEntry list"

definition get_best_ask_yes :: "OrderBook \<Rightarrow> decimal option" where
  "get_best_ask_yes ob = (case yes_asks ob of [] \<Rightarrow> None | e # _ \<Rightarrow> Some (price e))"

definition get_best_ask_no :: "OrderBook \<Rightarrow> decimal option" where
  "get_best_ask_no ob = (case no_asks ob of [] \<Rightarrow> None | e # _ \<Rightarrow> Some (price e))"

definition get_depth :: "OrderBook \<Rightarrow> string \<Rightarrow> string \<Rightarrow> nat \<Rightarrow> decimal" where
  "get_depth ob side bid_or_ask max_levels =
     (let entries =
            (if side = ''YES''
             then (if bid_or_ask = ''BID'' then yes_bids ob else yes_asks ob)
             else (if bid_or_ask = ''BID'' then no_bids ob else no_asks ob))
      in sum_list (map level_size (take max_levels entries)))"

record Trade =
  trade_id :: string
  timestamp :: int
  trade_side :: string
  trade_price :: decimal
  trade_qty :: decimal
  resulting_pair_cost :: decimal
  resulting_delta :: decimal
  order_id :: "string option"
  trade_market_id :: string

record MarketInfo =
  market_id :: string
  token_id_yes :: string
  token_id_no :: string

section \<open>Configuration (config.py)\<close>

record Config =
  max_unhedged_delta :: decimal
  profit_margin :: decimal
  min_liquidity_multiplier :: decimal
  bailout_stop_loss_percent :: decimal
  trade_size :: decimal

definition get_profit_target :: "Config \<Rightarrow> decimal" where
  "get_profit_target cfg = 1 - profit_margin cfg"

section \<open>Python truth values\<close>

text \<open>
  \<open>not x\<close> on an \<open>Optional[Decimal]\<close> holds for \<open>None\<close> and for a zero decimal; on an
  \<open>Optional[str]\<close> it holds for \<open>None\<close> and for the empty string.
\<close>

definition not_decimal :: "decimal option \<Rightarrow> bool" where
  "not_decimal x = (case x of None \<Rightarrow> True | Some v \<Rightarrow> v = 0)"

definition not_str :: "string option \<Rightarrow> bool" where
  "not_str x = (case x of None \<Rightarrow> True | Some s \<Rightarrow> s = [])"

section \<open>State store (core/state_manager.py)\<close>

text \<open>
  What the bot reads and writes outside itself.  \<open>position_key\<close> is the value under the
  Redis key \<open>gabagool:position\<close> (\<open>None\<close> while the key is absent), \<open>trades_key\<close> the sorted
  set under \<open>gabagool:trades\<close> as the list of its (member, score) pairs in rank order,
  and \<open>placed\<close> the calls of \<open>place_limit_order\<close> made so far, oldest first.  The store
  is taken to answer every command (no connection failure is modelled).
\<close>

record order =
  order_token :: string
  order_side :: string
  order_price :: decimal
  order_size :: decimal
  order_post_only :: bool

record world =
  position_key :: "position option"
  trades_key :: "(string \<times> int) list"
  placed :: "order list"

text \<open>
  \<open>get_position\<close>: the stored dictionary goes through the \<open>Position\<close> constructor, an
  absent key gives \<open>Position()\<close>.
\<close>

definition get_position :: "world \<Rightarrow> position" where
  "get_position w = (case position_key w of Some kw \<Rightarrow> Position kw | None \<Rightarrow> Position_default)"

text \<open>
  One pass through the \<open>try\<close> block of \<open>update_position_atomic\<close> whose \<open>EXEC\<close> succeeds:
  read, add the deltas to the primaries of the named side (any other side string changes
  nothing), rebuild the \<open>Position\<close>, write it, return it.
\<close>

definition update_attempt :: "world \<Rightarrow> string \<Rightarrow> decimal \<Rightarrow> decimal \<Rightarrow> position \<times> world" where
  "update_attempt w side qty_delta cost_delta =
     (let p = get_position w;
          p1 = (if side = ''YES''
                then p\<lparr>qty_yes := qty_yes p + qty_delta, cost_yes := cost_yes p + cost_delta\<rparr>
                else if side = ''NO''
                then p\<lparr>qty_no := qty_no p + qty_delta, cost_no := cost_no p + cost_delta\<rparr>
                else p);
          p2 = Position p1
      in (p2, w\<lparr>position_key := Some p2\<rparr>))"

text \<open>
  \<open>update_position_atomic\<close>.  The position key is watched; when another writer changes
  it before \<open>EXEC\<close>, redis raises \<open>WatchError\<close> and the method calls itself again.  The
  other writers are the argument \<open>conflicts\<close>: \<open>conflicts d = Some v\<close> says that the
  attempt made at recursion depth \<open>d\<close> loses against a writer that leaves \<open>v\<close> under the
  key, \<open>conflicts d = None\<close> that it commits.  The depth \<open>d\<close> is the number of enclosing
  calls of the method that are waiting for this one; the outermost call has depth 0.
  \<open>None\<close> as result means that the call never returns (the recursion limit of the
  Python interpreter is not part of the model).
\<close>

partial_function (option) update_position_atomic ::
  "(nat \<Rightarrow> position option option) \<Rightarrow> nat \<Rightarrow> world \<Rightarrow> string \<Rightarrow> decimal \<Rightarrow> decimal
     \<Rightarrow> (position \<times> world) option" where
  "update_position_atomic conflicts d w side qty_delta cost_delta =
     (case conflicts d of
        None \<Rightarrow> Some (update_attempt w side qty_delta cost_delta)
      | Some v \<Rightarrow>
          update_position_atomic conflicts (Suc d) (w\<lparr>position_key := v\<rparr>) side qty_delta cost_delta)"

text \<open>Two environments: no concurrent writer at all, and one that beats every attempt.\<close>

definition no_conflict :: "nat \<Rightarrow> position option option" where
  "no_conflict d = None"


subsection \<open>Trade history\<close>

text \<open>
  The redis sorted set: members in ascending order of score, members of equal score in
  ascending byte order.  \<open>ZADD\<close> of a member that is present moves it to its new score.
  \<open>ZREMRANGEBYRANK start stop\<close> resolves negative ranks from the end, clamps the range
  to the set and removes it; an empty range removes nothing.
\<close>

definition zset_le :: "string \<times> int \<Rightarrow> string \<times> int \<Rightarrow> bool" where
  "zset_le a b = (snd a < snd b \<or> (snd a = snd b \<and> fst a \<le> fst b))"

fun zinsert :: "string \<times> int \<Rightarrow> (string \<times> int) list \<Rightarrow> (string \<times> int) list" where
  "zinsert e [] = [e]"
| "zinsert e (x # xs) = (if zset_le e x then e # x # xs else x # zinsert e xs)"

definition zadd :: "string \<Rightarrow> int \<Rightarrow> (string \<times> int) list \<Rightarrow> (string \<times> int) list" where
  "zadd member score zs = zinsert (member, score) (filter (\<lambda>e. fst e \<noteq> member) zs)"

definition zremrangebyrank :: "int \<Rightarrow> int \<Rightarrow> (string \<times> int) list \<Rightarrow> (string \<times> int) list" where
  "zremrangebyrank start stop zs =
     (let llen = int (length zs);
          start1 = (if start < 0 then llen + start else start);
          stop1 = (if stop < 0 then llen + stop else stop);
          start2 = (if start1 < 0 then 0 else start1)
      in if start2 > stop1 \<or> start2 \<ge> llen then zs
         else (let stop2 = (if stop1 \<ge> llen then llen - 1 else stop1)
               in take (nat start2) zs @ drop (nat stop2 + 1) zs))"

text \<open>
  \<open>add_trade\<close>: the member is the JSON text of the trade (\<open>dumps\<close>, the serialiser, is a
  parameter), the score its timestamp; then everything below the last 1000 ranks goes.
\<close>

definition add_trade :: "(Trade \<Rightarrow> string) \<Rightarrow> Trade \<Rightarrow> world \<Rightarrow> world" where
  "add_trade dumps trade w =
     w\<lparr>trades_key := zremrangebyrank 0 (- 1001) (zadd (dumps trade) (timestamp trade) (trades_key w))\<rparr>"

section \<open>Venue and environment\<close>

text \<open>
  \<open>place_limit_order\<close> is recorded as a call; what the venue answers (an order id, or
  \<open>None\<close> also for every failure the client swallows) comes from the environment of the
  call, as do the concurrent writers met by the position update, the fresh trade id and
  the clock.
\<close>

definition place_limit_order :: "world \<Rightarrow> string \<Rightarrow> string \<Rightarrow> decimal \<Rightarrow> decimal \<Rightarrow> bool \<Rightarrow> world" where
  "place_limit_order w token_id side prc sz post_only =
     w\<lparr>placed := placed w @
        [\<lparr>order_token = token_id, order_side = side, order_price = prc, order_size = sz,
          order_post_only = post_only\<rparr>]\<rparr>"

record trade_env =
  reply_order_id :: "string option"
  update_conflicts :: "nat \<Rightarrow> position option option"
  uuid4 :: string
  utcnow :: int

text \<open>
  A call either returns a value or never returns (\<open>Hangs\<close>: the position update inside it
  retries for ever); a loop observed over a finite run of its environment may also be cut
  off while it is still going (\<open>Cut\<close>).  The world reached is kept in every case.
\<close>

datatype 'a outcome = Returns 'a | Hangs | Cut

section \<open>Accumulator (core/accumulator.py)\<close>

record state_info =
  s_avg_yes :: decimal
  s_avg_no :: decimal
  s_pair_cost :: decimal
  s_delta :: decimal
  s_locked_profit :: decimal

definition calculate_state :: "position \<Rightarrow> state_info" where
  "calculate_state p =
     (let ay = (if qty_yes p > 0 then cost_yes p / qty_yes p else 0);
          an = (if qty_no p > 0 then cost_no p / qty_no p else 0);
          pc = ay + an;
          d = qty_yes p - qty_no p;
          paired_qty = min (qty_yes p) (qty_no p);
          lp = (if paired_qty > 0 \<and> pc < 1 then paired_qty * (1 - pc) else 0)
      in \<lparr>s_avg_yes = ay, s_avg_no = an, s_pair_cost = pc, s_delta = d, s_locked_profit = lp\<rparr>)"

definition check_constraints :: "Config \<Rightarrow> string \<Rightarrow> position \<Rightarrow> OrderBook \<Rightarrow> bool" where
  "check_constraints cfg side p ob =
     (let current_delta = delta p;
          new_delta = (if side = ''YES'' then current_delta + trade_size cfg
                       else current_delta - trade_size cfg)
      in if \<bar>new_delta\<bar> > max_unhedged_delta cfg then False
         else (let opposite_side = (if side = ''YES'' then ''NO'' else ''YES'');
                   required_liquidity = trade_size cfg * min_liquidity_multiplier cfg;
                   available_liquidity = get_depth ob opposite_side ''ASK'' 5
               in if available_liquidity < required_liquidity then False else True))"

definition execute_trade ::
  "(Trade \<Rightarrow> string) \<Rightarrow> MarketInfo option \<Rightarrow> trade_env \<Rightarrow> world \<Rightarrow> string \<Rightarrow> decimal \<Rightarrow> decimal
     \<Rightarrow> Trade option outcome \<times> world" where
  "execute_trade dumps current_market env w side prc qty =
     (case current_market of
        None \<Rightarrow> (Returns None, w)
      | Some m \<Rightarrow>
          (let token_id = (if side = ''YES'' then token_id_yes m else token_id_no m);
               w1 = place_limit_order w token_id ''BUY'' prc qty True
           in if not_str (reply_order_id env) then (Returns None, w1)
              else (case update_position_atomic (update_conflicts env) 0 w1 side qty (prc * qty) of
                      None \<Rightarrow> (Hangs, w1)
                    | Some (updated_position, w2) \<Rightarrow>
                        (let state = calculate_state updated_position;
                             trade = \<lparr>trade_id = uuid4 env, timestamp = utcnow env,
                                      trade_side = side, trade_price = prc, trade_qty = qty,
                                      resulting_pair_cost = s_pair_cost state,
                                      resulting_delta = s_delta state,
                                      order_id = reply_order_id env,
                                      trade_market_id = market_id m\<rparr>
                         in (Returns (Some trade), add_trade dumps trade w2)))))"

record opportunity =
  opp_side :: string
  opp_price :: decimal
  expected_pair_cost :: decimal

definition execute_opportunity ::
  "(Trade \<Rightarrow> string) \<Rightarrow> Config \<Rightarrow> MarketInfo option \<Rightarrow> trade_env \<Rightarrow> opportunity \<Rightarrow> position
     \<Rightarrow> OrderBook \<Rightarrow> world \<Rightarrow> unit outcome \<times> world" where
  "execute_opportunity dumps cfg current_market env opp p ob w =
     (if \<not> check_constraints cfg (opp_side opp) p ob then (Returns (), w)
      else (case execute_trade dumps current_market env w (opp_side opp) (opp_price opp) (trade_size cfg) of
              (Returns _, w') \<Rightarrow> (Returns (), w')
            | (Hangs, w') \<Rightarrow> (Hangs, w')
            | (Cut, w') \<Rightarrow> (Cut, w')))"

text \<open>
  \<open>_scan_and_execute\<close>: one scan tick.  \<open>ob\<close> is the order book the venue returns for the
  current market.
\<close>

definition scan_and_execute ::
  "(Trade \<Rightarrow> string) \<Rightarrow> Config \<Rightarrow> MarketInfo option \<Rightarrow> OrderBook \<Rightarrow> trade_env \<Rightarrow> world
     \<Rightarrow> unit outcome \<times> world" where
  "scan_and_execute dumps cfg current_market ob env w =
     (if current_market = None then (Returns (), w)
      else (let p = get_position w
            in if yes_asks ob = [] \<or> no_asks ob = [] then (Returns (), w)
               else (let state_info = calculate_state p;
                         ask_yes = get_best_ask_yes ob;
                         ask_no = get_best_ask_no ob
                     in if not_decimal ask_yes \<or> not_decimal ask_no then (Returns (), w)
                        else (case (ask_yes, ask_no) of
                                (Some a_yes, Some a_no) \<Rightarrow>
                                  (let target_cost = get_profit_target cfg;
                                       opportunity_yes =
                                         (if a_yes + s_avg_no state_info < target_cost
                                          then Some \<lparr>opp_side = ''YES'', opp_price = a_yes,
                                                      expected_pair_cost = a_yes + s_avg_no state_info\<rparr>
                                          else None);
                                       opportunity_no =
                                         (if a_no + s_avg_yes state_info < target_cost
                                          then Some \<lparr>opp_side = ''NO'', opp_price = a_no,
                                                      expected_pair_cost = a_no + s_avg_yes state_info\<rparr>
                                          else None)
                                   in (case (opportunity_yes, opportunity_no) of
                                         (Some oy, Some on) \<Rightarrow>
                                           (if expected_pair_cost oy < expected_pair_cost on
                                            then execute_opportunity dumps cfg current_market env oy p ob w
                                            else execute_opportunity dumps cfg current_market env on p ob w)
                                       | (Some oy, None) \<Rightarrow>
                                           execute_opportunity dumps cfg current_market env oy p ob w
                                       | (None, Some on) \<Rightarrow>
                                           execute_opportunity dumps cfg current_market env on p ob w
                                       | (None, None) \<Rightarrow> (Returns (), w)))
                              | _ \<Rightarrow> (Returns (), w)))))"

section \<open>Equalizer (core/equalizer.py)\<close>



section \<open>Risk engine (core/risk_engine.py)\<close>

definition get_mid_price :: "OrderBookEntry list \<Rightarrow> OrderBookEntry list \<Rightarrow> decimal option" where
  "get_mid_price bids asks =
     (case (bids, asks) of
        (b # _, a # _) \<Rightarrow> Some ((price b + price a) / 2)
      | _ \<Rightarrow> None)"

definition check_bailout_stop_loss :: "Config \<Rightarrow> position \<Rightarrow> OrderBook \<Rightarrow> bool" where
  "check_bailout_stop_loss cfg p ob =
     (let mid_yes = get_mid_price (yes_bids ob) (yes_asks ob);
          mid_no = get_mid_price (no_bids ob) (no_asks ob)
      in if not_decimal mid_yes \<or> not_decimal mid_no then False
         else (case (mid_yes, mid_no) of
                 (Some m_yes, Some m_no) \<Rightarrow>
                   (let position_value = qty_yes p * m_yes + qty_no p * m_no;
                        position_cost = cost_yes p + cost_no p;
                        unrealized_pnl = position_value - position_cost;
                        loss_threshold = position_cost * (bailout_stop_loss_percent cfg / 100)
                    in if unrealized_pnl < - loss_threshold then True else False)
               | _ \<Rightarrow> False))"

text \<open>
  \<open>_market_sell\<close>: \<open>order_book_data\<close> is what \<open>get_order_book\<close> returns for the token (its
  bids), \<open>reply\<close> the venue's answer to the sell order, \<open>cfl\<close> the writers the position
  update meets.
\<close>

definition market_sell ::
  "OrderBookEntry list \<Rightarrow> string option \<Rightarrow> (nat \<Rightarrow> position option option) \<Rightarrow> world
     \<Rightarrow> string \<Rightarrow> decimal \<Rightarrow> string \<Rightarrow> unit outcome \<times> world" where
  "market_sell order_book_data reply cfl w token_id qty side =
     (case order_book_data of
        [] \<Rightarrow> (Returns (), w)
      | e # _ \<Rightarrow>
          (let best_bid = price e;
               w1 = place_limit_order w token_id ''SELL'' best_bid qty False
           in if \<not> not_str reply
              then (case update_position_atomic cfl 0 w1 side (- qty) (- (best_bid * qty)) of
                      None \<Rightarrow> (Hangs, w1)
                    | Some (_, w2) \<Rightarrow> (Returns (), w2))
              else (Returns (), w1)))"

section \<open>Worlds and environments used in the examples\<close>

definition empty_world :: world where
  "empty_world = \<lparr>position_key = None, trades_key = [], placed = []\<rparr>"

text \<open>
  The world that the attempt which commits has read, when the attempts at depths
  \<open>0, \<dots>, k - 1\<close> lost against writers leaving \<open>vs 0, \<dots>, vs (k - 1)\<close>.
\<close>

definition seen_world :: "world \<Rightarrow> (nat \<Rightarrow> position option) \<Rightarrow> nat \<Rightarrow> world" where
  "seen_world w vs k = (if k = 0 then w else w\<lparr>position_key := vs (k - 1)\<rparr>)"




text \<open>The post-only buy order that \<open>execute_trade\<close> sends for a side of a market.\<close>

definition buy_order :: "MarketInfo \<Rightarrow> string \<Rightarrow> decimal \<Rightarrow> decimal \<Rightarrow> order" where
  "buy_order m side prc qty =
     \<lparr>order_token = (if side = ''YES'' then token_id_yes m else token_id_no m),
      order_side = ''BUY'', order_price = prc, order_size = qty, order_post_only = True\<rparr>"

text \<open>The default configuration, a market, and venue replies.\<close>

definition example_config :: Config where
  "example_config = \<lparr>max_unhedged_delta = 50, profit_margin = 2 / 100,
     min_liquidity_multiplier = 3, bailout_stop_loss_percent = 2, trade_size = 10\<rparr>"

definition example_market :: MarketInfo where
  "example_market = \<lparr>market_id = ''m'', token_id_yes = ''ty'', token_id_no = ''tn''\<rparr>"

definition example_env :: trade_env where
  "example_env = \<lparr>reply_order_id = Some ''o1'', update_conflicts = no_conflict,
     uuid4 = ''u1'', utcnow = 1\<rparr>"


definition rejecting_env :: trade_env where
  "rejecting_env = \<lparr>reply_order_id = None, update_conflicts = no_conflict,
     uuid4 = ''u1'', utcnow = 1\<rparr>"


definition zero_ask_book :: OrderBook where
  "zero_ask_book = \<lparr>yes_bids = [], yes_asks = [\<lparr>price = 0, level_size = 100\<rparr>],
     no_bids = [], no_asks = [\<lparr>price = 2 / 5, level_size = 100\<rparr>]\<rparr>"

definition cold_start_book :: OrderBook where
  "cold_start_book = \<lparr>yes_bids = [\<lparr>price = 54 / 100, level_size = 100\<rparr>],
     yes_asks = [\<lparr>price = 55 / 100, level_size = 100\<rparr>],
     no_bids = [\<lparr>price = 39 / 100, level_size = 100\<rparr>],
     no_asks = [\<lparr>price = 40 / 100, level_size = 100\<rparr>]\<rparr>"


text \<open>A YES mid price of zero, and both mids at 0.30.\<close>

definition zero_mid_book :: OrderBook where
  "zero_mid_book = \<lparr>yes_bids = [\<lparr>price = 0, level_size = 100\<rparr>],
     yes_asks = [\<lparr>price = 0, level_size = 100\<rparr>],
     no_bids = [\<lparr>price = 29 / 100, level_size = 100\<rparr>],
     no_asks = [\<lparr>price = 31 / 100, level_size = 100\<rparr>]\<rparr>"

definition falling_book :: OrderBook where
  "falling_book = \<lparr>yes_bids = [\<lparr>price = 29 / 100, level_size = 100\<rparr>],
     yes_asks = [\<lparr>price = 31 / 100, level_size = 100\<rparr>],
     no_bids = [\<lparr>price = 29 / 100, level_size = 100\<rparr>],
     no_asks = [\<lparr>price = 31 / 100, level_size = 100\<rparr>]\<rparr>"

text \<open>Positions: at the delta cap; 30 YES against 10 NO; 100 of each bought for 102.\<close>

definition capped_position :: position where
  "capped_position = Position \<lparr>qty_yes = 50, cost_yes = 20, avg_yes = 0, qty_no = 0,
     cost_no = 0, avg_no = 0, pair_cost = 0, locked_profit = 0, delta = 0\<rparr>"



definition losing_position :: position where
  "losing_position = Position \<lparr>qty_yes = 100, cost_yes = 60, avg_yes = 0, qty_no = 100,
     cost_no = 42, avg_no = 0, pair_cost = 0, locked_profit = 0, delta = 0\<rparr>"

text \<open>A store holding 10 YES shares bought for 4.\<close>

definition long_yes_world :: world where
  "long_yes_world = \<lparr>position_key = Some \<lparr>qty_yes = 10, cost_yes = 4, avg_yes = 2 / 5,
     qty_no = 0, cost_no = 0, avg_no = 0, pair_cost = 2 / 5, locked_profit = 0, delta = 10\<rparr>,
     trades_key = [], placed = []\<rparr>"

section \<open>Properties of the state store\<close>

subsection \<open>The retry recursion\<close>

lemma update_position_atomic_commit:
  "conflicts d = None \<Longrightarrow>
   update_position_atomic conflicts d w side dq dc = Some (update_attempt w side dq dc)"
  by (subst update_position_atomic.simps) simp

lemma update_position_atomic_retry:
  "conflicts d = Some v \<Longrightarrow>
   update_position_atomic conflicts d w side dq dc =
     update_position_atomic conflicts (Suc d) (w\<lparr>position_key := v\<rparr>) side dq dc"
  by (subst update_position_atomic.simps) simp

lemma update_position_atomic_descend:
  "(\<forall>i<k. conflicts (d + i) = Some (vs i)) \<Longrightarrow>
   update_position_atomic conflicts d w side dq dc =
     update_position_atomic conflicts (d + k) (seen_world w vs k) side dq dc"
proof (induction k arbitrary: d w vs)
  case 0
  then show ?case by (simp add: seen_world_def)
next
  case (Suc k)
  have c0: "conflicts d = Some (vs 0)" using Suc.prems by force
  have a: "\<forall>i<k. conflicts (Suc d + i) = Some (vs (Suc i))" using Suc.prems by force
  have "update_position_atomic conflicts d w side dq dc =
        update_position_atomic conflicts (Suc d) (w\<lparr>position_key := vs 0\<rparr>) side dq dc"
    using c0 by (rule update_position_atomic_retry)
  also have "\<dots> = update_position_atomic conflicts (Suc d + k)
        (seen_world (w\<lparr>position_key := vs 0\<rparr>) (\<lambda>i. vs (Suc i)) k) side dq dc"
    by (rule Suc.IH[OF a])
  also have "seen_world (w\<lparr>position_key := vs 0\<rparr>) (\<lambda>i. vs (Suc i)) k = seen_world w vs (Suc k)"
    by (cases k) (simp_all add: seen_world_def)
  finally show ?case by simp
qed



subsection \<open>What one committed update computes\<close>

lemma Position_primaries:
  "qty_yes (Position kw) = qty_yes kw" "cost_yes (Position kw) = cost_yes kw"
  "qty_no (Position kw) = qty_no kw" "cost_no (Position kw) = cost_no kw"
  by (simp_all add: Position_def Let_def)

lemma Position_derived:
  "avg_yes (Position kw) = (if qty_yes kw > 0 then cost_yes kw / qty_yes kw else 0)"
  "avg_no (Position kw) = (if qty_no kw > 0 then cost_no kw / qty_no kw else 0)"
  "pair_cost (Position kw) = avg_yes (Position kw) + avg_no (Position kw)"
  "delta (Position kw) = qty_yes kw - qty_no kw"
  "locked_profit (Position kw) =
     (if min (qty_yes kw) (qty_no kw) > 0 \<and> pair_cost (Position kw) < 1
      then min (qty_yes kw) (qty_no kw) * (1 - pair_cost (Position kw)) else 0)"
  by (simp_all add: Position_def Let_def calculate_averages_def calculate_pair_cost_def
      calculate_delta_def calculate_locked_profit_def)

lemma update_attempt_fields:
  assumes "side = ''YES'' \<or> side = ''NO''"
    and "update_attempt w side dq dc = (p', w')"
  shows "qty_yes p' = qty_yes (get_position w) + (if side = ''YES'' then dq else 0)"
    and "cost_yes p' = cost_yes (get_position w) + (if side = ''YES'' then dc else 0)"
    and "qty_no p' = qty_no (get_position w) + (if side = ''NO'' then dq else 0)"
    and "cost_no p' = cost_no (get_position w) + (if side = ''NO'' then dc else 0)"
    and "avg_yes p' = (if qty_yes p' > 0 then cost_yes p' / qty_yes p' else 0)"
    and "avg_no p' = (if qty_no p' > 0 then cost_no p' / qty_no p' else 0)"
    and "pair_cost p' = avg_yes p' + avg_no p'"
    and "delta p' = qty_yes p' - qty_no p'"
    and "locked_profit p' =
          (if min (qty_yes p') (qty_no p') > 0 \<and> pair_cost p' < 1
           then min (qty_yes p') (qty_no p') * (1 - pair_cost p') else 0)"
    and "position_key w' = Some p'"
    and "trades_key w' = trades_key w" and "placed w' = placed w"
  using assms
  by (auto simp add: update_attempt_def Let_def Position_primaries Position_derived)








subsection \<open>Signs of the primaries\<close>

lemmas position_defs = get_position_def Position_default_def Position_def Let_def
  calculate_averages_def calculate_pair_cost_def calculate_delta_def calculate_locked_profit_def

lemma update_position_atomic_value:
  assumes "\<forall>i<k. conflicts i = Some (vs i)" and "conflicts k = None"
  shows "update_position_atomic conflicts 0 w side dq dc =
     Some (update_attempt (seen_world w vs k) side dq dc)"
proof -
  have "update_position_atomic conflicts 0 w side dq dc =
        update_position_atomic conflicts (0 + k) (seen_world w vs k) side dq dc"
    by (rule update_position_atomic_descend) (simp add: assms(1))
  also have "\<dots> = Some (update_attempt (seen_world w vs k) side dq dc)"
    using assms(2) by (simp add: update_position_atomic_commit)
  finally show ?thesis .
qed

lemma get_position_seen_placed:
  "get_position (seen_world (place_limit_order w tok s pr sz po) vs k) = get_position (seen_world w vs k)"
  by (simp add: get_position_def seen_world_def place_limit_order_def)

lemma update_position_atomic_frame:
  assumes "update_position_atomic conflicts d w side dq dc = Some r"
  shows "trades_key (snd r) = trades_key w \<and> placed (snd r) = placed w"
proof (rule update_position_atomic.raw_induct
    [where P = "\<lambda>conflicts d w side dq dc r.
        trades_key (snd r) = trades_key w \<and> placed (snd r) = placed w", OF _ assms])
  fix upd :: "(nat \<Rightarrow> position option option) \<Rightarrow> nat \<Rightarrow> world \<Rightarrow> string \<Rightarrow> decimal \<Rightarrow> decimal
      \<Rightarrow> (position \<times> world) option"
    and conflicts d w side dq dc r
  assume IH: "\<And>conflicts d w side dq dc r. upd conflicts d w side dq dc = Some r \<Longrightarrow>
      trades_key (snd r) = trades_key w \<and> placed (snd r) = placed w"
  assume eq: "(case conflicts d of None \<Rightarrow> Some (update_attempt w side dq dc)
      | Some v \<Rightarrow> upd conflicts (Suc d) (w\<lparr>position_key := v\<rparr>) side dq dc) = Some r"
  show "trades_key (snd r) = trades_key w \<and> placed (snd r) = placed w"
  proof (cases "conflicts d")
    case None
    with eq have "r = update_attempt w side dq dc" by simp
    then show ?thesis by (simp add: update_attempt_def Let_def)
  next
    case (Some v)
    with eq have "upd conflicts (Suc d) (w\<lparr>position_key := v\<rparr>) side dq dc = Some r" by simp
    from IH[OF this] show ?thesis by simp
  qed
qed

lemma update_attempt_signs:
  assumes "side = ''YES'' \<or> side = ''NO''"
    and "0 \<le> qty_yes (get_position w)" "0 \<le> cost_yes (get_position w)"
    and "0 \<le> qty_no (get_position w)" "0 \<le> cost_no (get_position w)"
    and "update_attempt w side dq dc = (p', w')"
  shows "(0 \<le> qty_yes p' \<and> 0 \<le> cost_yes p' \<and> 0 \<le> qty_no p' \<and> 0 \<le> cost_no p') \<longleftrightarrow>
     (- dq \<le> (if side = ''YES'' then qty_yes (get_position w) else qty_no (get_position w)) \<and>
      - dc \<le> (if side = ''YES'' then cost_yes (get_position w) else cost_no (get_position w)))"
    and "qty_yes (get_position w') = qty_yes p'" and "cost_yes (get_position w') = cost_yes p'"
    and "qty_no (get_position w') = qty_no p'" and "cost_no (get_position w') = cost_no p'"
proof -
  note f = update_attempt_fields[OF assms(1) assms(6)]
  show "(0 \<le> qty_yes p' \<and> 0 \<le> cost_yes p' \<and> 0 \<le> qty_no p' \<and> 0 \<le> cost_no p') \<longleftrightarrow>
     (- dq \<le> (if side = ''YES'' then qty_yes (get_position w) else qty_no (get_position w)) \<and>
      - dc \<le> (if side = ''YES'' then cost_yes (get_position w) else cost_no (get_position w)))"
    using assms(1-5) unfolding f(1-4) by auto
  show "qty_yes (get_position w') = qty_yes p'" "cost_yes (get_position w') = cost_yes p'"
    "qty_no (get_position w') = qty_no p'" "cost_no (get_position w') = cost_no p'"
    using f(10) by (simp_all add: get_position_def Position_primaries)
qed

text \<open>
  Claim C2, as amended.  Let the attempt that commits read a position \<open>p\<close> whose four
  primaries are non-negative.  After the committed update \<open>(side, qty_delta, cost_delta)\<close>
  with side YES or NO all four primaries are non-negative if and only if
  \<open>- qty_delta \<le> qty_side p\<close> and \<open>- cost_delta \<le> cost_side p\<close>.  For the sell update of
  \<open>_market_sell\<close>, \<open>(side, - qty, - best_bid * qty)\<close> with an accepted order, that is: if and
  only if \<open>qty \<le> qty_side p\<close> and \<open>best_bid * qty \<le> cost_side p\<close>.
\<close>

theorem committed_update_nonnegative_iff:
  assumes "side = ''YES'' \<or> side = ''NO''"
    and "\<forall>i<k. conflicts i = Some (vs i)" and "conflicts k = None"
    and "0 \<le> qty_yes (get_position (seen_world w vs k))"
    and "0 \<le> cost_yes (get_position (seen_world w vs k))"
    and "0 \<le> qty_no (get_position (seen_world w vs k))"
    and "0 \<le> cost_no (get_position (seen_world w vs k))"
  shows "(\<exists>p' w'. update_position_atomic conflicts 0 w side dq dc = Some (p', w') \<and>
      position_key w' = Some p' \<and>
      ((0 \<le> qty_yes p' \<and> 0 \<le> cost_yes p' \<and> 0 \<le> qty_no p' \<and> 0 \<le> cost_no p') \<longleftrightarrow>
       (- dq \<le> (if side = ''YES'' then qty_yes (get_position (seen_world w vs k))
                 else qty_no (get_position (seen_world w vs k))) \<and>
        - dc \<le> (if side = ''YES'' then cost_yes (get_position (seen_world w vs k))
                 else cost_no (get_position (seen_world w vs k)))))) \<and>
    (\<not> not_str reply \<longrightarrow>
      ((0 \<le> qty_yes (get_position (snd (market_sell (e # es) reply conflicts w token_id qty side))) \<and>
        0 \<le> cost_yes (get_position (snd (market_sell (e # es) reply conflicts w token_id qty side))) \<and>
        0 \<le> qty_no (get_position (snd (market_sell (e # es) reply conflicts w token_id qty side))) \<and>
        0 \<le> cost_no (get_position (snd (market_sell (e # es) reply conflicts w token_id qty side))))
       \<longleftrightarrow>
       (qty \<le> (if side = ''YES'' then qty_yes (get_position (seen_world w vs k))
                else qty_no (get_position (seen_world w vs k))) \<and>
        price e * qty \<le> (if side = ''YES'' then cost_yes (get_position (seen_world w vs k))
                else cost_no (get_position (seen_world w vs k))))))"
proof (intro conjI impI)
  obtain p' w' where att: "update_attempt (seen_world w vs k) side dq dc = (p', w')"
    by (cases "update_attempt (seen_world w vs k) side dq dc")
  have ret: "update_position_atomic conflicts 0 w side dq dc = Some (p', w')"
    using update_position_atomic_value[OF assms(2,3)] att by simp
  from update_attempt_signs(1)[OF assms(1) assms(4-7) att]
    update_attempt_fields(10)[OF assms(1) att] ret
  show "\<exists>p' w'. update_position_atomic conflicts 0 w side dq dc = Some (p', w') \<and>
      position_key w' = Some p' \<and>
      ((0 \<le> qty_yes p' \<and> 0 \<le> cost_yes p' \<and> 0 \<le> qty_no p' \<and> 0 \<le> cost_no p') \<longleftrightarrow>
       (- dq \<le> (if side = ''YES'' then qty_yes (get_position (seen_world w vs k))
                 else qty_no (get_position (seen_world w vs k))) \<and>
        - dc \<le> (if side = ''YES'' then cost_yes (get_position (seen_world w vs k))
                 else cost_no (get_position (seen_world w vs k)))))"
    by blast
next
  assume r: "\<not> not_str reply"
  let ?w1 = "place_limit_order w token_id ''SELL'' (price e) qty False"
  let ?sw = "seen_world ?w1 vs k"
  obtain p' w' where att: "update_attempt ?sw side (- qty) (- (price e * qty)) = (p', w')"
    by (cases "update_attempt ?sw side (- qty) (- (price e * qty))")
  have ret: "update_position_atomic conflicts 0 ?w1 side (- qty) (- (price e * qty)) = Some (p', w')"
    using update_position_atomic_value[OF assms(2,3)] att by simp
  have ms: "snd (market_sell (e # es) reply conflicts w token_id qty side) = w'"
    using r ret by (simp add: market_sell_def Let_def)
  have gp: "get_position ?sw = get_position (seen_world w vs k)"
    by (rule get_position_seen_placed)
  note s = update_attempt_signs[OF assms(1) assms(4-7)[folded gp] att]
  show "(0 \<le> qty_yes (get_position (snd (market_sell (e # es) reply conflicts w token_id qty side))) \<and>
        0 \<le> cost_yes (get_position (snd (market_sell (e # es) reply conflicts w token_id qty side))) \<and>
        0 \<le> qty_no (get_position (snd (market_sell (e # es) reply conflicts w token_id qty side))) \<and>
        0 \<le> cost_no (get_position (snd (market_sell (e # es) reply conflicts w token_id qty side))))
       \<longleftrightarrow>
       (qty \<le> (if side = ''YES'' then qty_yes (get_position (seen_world w vs k))
                else qty_no (get_position (seen_world w vs k))) \<and>
        price e * qty \<le> (if side = ''YES'' then cost_yes (get_position (seen_world w vs k))
                else cost_no (get_position (seen_world w vs k))))"
    unfolding ms s(2-5) using s(1) unfolding gp by simp
qed


theorem committed_update_nonnegative_iff_witness:
  "0 \<le> qty_yes (get_position (snd (market_sell [\<lparr>price = 1 / 4, level_size = 100\<rparr>] (Some ''o1'')
            no_conflict long_yes_world ''ty'' 10 ''YES''))) \<and>
   0 \<le> cost_yes (get_position (snd (market_sell [\<lparr>price = 1 / 4, level_size = 100\<rparr>] (Some ''o1'')
            no_conflict long_yes_world ''ty'' 10 ''YES''))) \<and>
   0 \<le> qty_no (get_position (snd (market_sell [\<lparr>price = 1 / 4, level_size = 100\<rparr>] (Some ''o1'')
            no_conflict long_yes_world ''ty'' 10 ''YES''))) \<and>
   0 \<le> cost_no (get_position (snd (market_sell [\<lparr>price = 1 / 4, level_size = 100\<rparr>] (Some ''o1'')
            no_conflict long_yes_world ''ty'' 10 ''YES'')))"
proof -
  have gp: "get_position (seen_world long_yes_world (\<lambda>i. None) 0) =
      \<lparr>qty_yes = 10, cost_yes = 4, avg_yes = 2 / 5, qty_no = 0, cost_no = 0, avg_no = 0,
       pair_cost = 2 / 5, locked_profit = 0, delta = 10\<rparr>"
    by (simp add: seen_world_def long_yes_world_def position_defs)
  from committed_update_nonnegative_iff
    [where side = "''YES''" and k = 0 and conflicts = no_conflict and vs = "\<lambda>i. None"
       and w = long_yes_world and reply = "Some ''o1''"
       and e = "\<lparr>price = 1 / 4, level_size = 100\<rparr>" and es = "[]" and token_id = "''ty''"
       and qty = 10 and dq = 10 and dc = 4]
  show ?thesis
    unfolding gp by (simp add: no_conflict_def not_str_def)
qed

text \<open>
  Claim C2 as stated fails: with 10 YES shares held at a cost of 4 and a best bid of 0.50,
  the liquidation sell \<open>(YES, -10, -5)\<close> commits \<open>cost_yes = -1\<close>.
\<close>

theorem market_sell_negative_cost_counterexample:
  "qty_yes (get_position long_yes_world) = 10 \<and> cost_yes (get_position long_yes_world) = 4 \<and>
   qty_no (get_position long_yes_world) = 0 \<and> cost_no (get_position long_yes_world) = 0 \<and>
   market_sell [\<lparr>price = 1 / 2, level_size = 100\<rparr>] (Some ''o1'') no_conflict long_yes_world
       ''ty'' 10 ''YES'' =
     (Returns (),
      \<lparr>position_key = Some \<lparr>qty_yes = 0, cost_yes = - 1, avg_yes = 0, qty_no = 0, cost_no = 0,
         avg_no = 0, pair_cost = 0, locked_profit = 0, delta = 0\<rparr>,
       trades_key = [],
       placed = [\<lparr>order_token = ''ty'', order_side = ''SELL'', order_price = 1 / 2,
                  order_size = 10, order_post_only = False\<rparr>]\<rparr>)"
proof -
  have gp: "get_position long_yes_world =
      \<lparr>qty_yes = 10, cost_yes = 4, avg_yes = 2 / 5, qty_no = 0, cost_no = 0, avg_no = 0,
       pair_cost = 2 / 5, locked_profit = 0, delta = 10\<rparr>"
    by (simp add: long_yes_world_def position_defs)
  have gp': "get_position (place_limit_order long_yes_world ''ty'' ''SELL'' (1 / 2) 10 False)
      = get_position long_yes_world"
    by (simp add: get_position_def place_limit_order_def)
  have att: "update_attempt (place_limit_order long_yes_world ''ty'' ''SELL'' (1 / 2) 10 False)
      ''YES'' (- 10) (- 5) =
     (\<lparr>qty_yes = 0, cost_yes = - 1, avg_yes = 0, qty_no = 0, cost_no = 0,
         avg_no = 0, pair_cost = 0, locked_profit = 0, delta = 0\<rparr>,
      \<lparr>position_key = Some \<lparr>qty_yes = 0, cost_yes = - 1, avg_yes = 0, qty_no = 0, cost_no = 0,
         avg_no = 0, pair_cost = 0, locked_profit = 0, delta = 0\<rparr>,
       trades_key = [],
       placed = [\<lparr>order_token = ''ty'', order_side = ''SELL'', order_price = 1 / 2,
                  order_size = 10, order_post_only = False\<rparr>]\<rparr>)"
    unfolding update_attempt_def gp' gp
    by (simp add: Position_def Let_def calculate_averages_def calculate_pair_cost_def
        calculate_delta_def calculate_locked_profit_def place_limit_order_def long_yes_world_def)
  show ?thesis
    unfolding gp
    by (simp add: market_sell_def Let_def not_str_def no_conflict_def
        update_position_atomic_commit att del: One_nat_def)
qed

subsection \<open>The trade log\<close>

lemma zremrangebyrank_keep_last:
  "zremrangebyrank 0 (- 1001) zs = drop (length zs - 1000) zs"
proof (cases "length zs < 1001")
  case True
  then show ?thesis by (simp add: zremrangebyrank_def Let_def)
next
  case False
  then have "Suc (length zs - 1001) = length zs - 1000" by simp
  with False show ?thesis
    by (auto simp add: zremrangebyrank_def Let_def nat_diff_distrib' nat_add_distrib)
qed


lemma length_zinsert: "length (zinsert e zs) = Suc (length zs)"
  by (induction zs) auto







text \<open>
  A full log and a trade newer than all of it: the entry of lowest rank goes, the new one
  comes last.
\<close>

lemma zinsert_newest: "\<forall>e\<in>set zs. snd e < s \<Longrightarrow> zinsert (m, s) zs = zs @ [(m, s)]"
  by (induction zs) (auto simp add: zset_le_def)

lemma add_trade_full_log:
  assumes "length (trades_key w) = 1000"
    and "\<forall>e\<in>set (trades_key w). fst e \<noteq> dumps t \<and> snd e < timestamp t"
  shows "trades_key (add_trade dumps t w) = tl (trades_key w) @ [(dumps t, timestamp t)]"
proof -
  have f: "filter (\<lambda>e. fst e \<noteq> dumps t) (trades_key w) = trades_key w"
    using assms(2) by (simp add: filter_id_conv)
  have z: "zadd (dumps t) (timestamp t) (trades_key w) = trades_key w @ [(dumps t, timestamp t)]"
    unfolding zadd_def f using assms(2) by (simp add: zinsert_newest)
  have "trades_key w \<noteq> []" using assms(1) by auto
  then show ?thesis
    by (simp add: add_trade_def zremrangebyrank_keep_last z assms(1) drop_Suc)
qed

text \<open>The rank range of the trim on a short set, with 2 in place of 1000.\<close>

lemma zremrangebyrank_example:
  "zremrangebyrank 0 (- 3) [(''a'', 1), (''b'', 2), (''c'', 3), (''d'', 4)] = [(''c'', 3), (''d'', 4)]"
  by (simp add: zremrangebyrank_def)

section \<open>Properties of the accumulator\<close>

subsection \<open>What a trade leaves alone, and which order it sends\<close>

lemma add_trade_frame:
  "position_key (add_trade dumps t w) = position_key w" "placed (add_trade dumps t w) = placed w"
  by (simp_all add: add_trade_def)

lemma execute_trade_placed:
  "placed (snd (execute_trade dumps current_market env w side prc qty)) =
     (case current_market of None \<Rightarrow> placed w
      | Some m \<Rightarrow> placed w @ [buy_order m side prc qty])"
proof (cases current_market)
  case None
  then show ?thesis by (simp add: execute_trade_def)
next
  case (Some m)
  let ?w1 = "place_limit_order w (if side = ''YES'' then token_id_yes m else token_id_no m)
      ''BUY'' prc qty True"
  have p1: "placed ?w1 = placed w @ [buy_order m side prc qty]"
    by (simp add: place_limit_order_def buy_order_def)
  show ?thesis
  proof (cases "not_str (reply_order_id env)")
    case True
    with Some p1 show ?thesis by (simp add: execute_trade_def Let_def)
  next
    case False
    show ?thesis
    proof (cases "update_position_atomic (update_conflicts env) 0 ?w1 side qty (prc * qty)")
      case None
      with Some False p1 show ?thesis by (simp add: execute_trade_def Let_def)
    next
      case (Some r)
      obtain p' w2 where r: "r = (p', w2)" by (cases r)
      from update_position_atomic_frame[OF Some] r have "placed w2 = placed ?w1" by simp
      with \<open>current_market = Some m\<close> False Some r p1 show ?thesis
        by (simp add: execute_trade_def Let_def add_trade_frame)
    qed
  qed
qed

lemma execute_opportunity_placed:
  "placed (snd (execute_opportunity dumps cfg current_market env opp p ob w)) =
     (if check_constraints cfg (opp_side opp) p ob
      then placed (snd (execute_trade dumps current_market env w (opp_side opp) (opp_price opp)
                          (trade_size cfg)))
      else placed w)"
  by (simp add: execute_opportunity_def split: prod.splits outcome.splits)

lemma check_constraints_delta:
  "check_constraints cfg side p ob \<Longrightarrow>
   \<bar>delta p + (if side = ''YES'' then trade_size cfg else - trade_size cfg)\<bar>
     \<le> max_unhedged_delta cfg"
  by (auto simp add: check_constraints_def Let_def split: if_splits)

lemma scan_and_execute_cases:
  "scan_and_execute dumps cfg current_market ob env w = (Returns (), w) \<or>
   (\<exists>opp. (opp_side opp = ''YES'' \<or> opp_side opp = ''NO'') \<and>
      scan_and_execute dumps cfg current_market ob env w =
        execute_opportunity dumps cfg current_market env opp (get_position w) ob w)"
proof -
  have eo: "\<And>opp x. opp_side opp = ''YES'' \<or> opp_side opp = ''NO'' \<Longrightarrow>
      x = execute_opportunity dumps cfg current_market env opp (get_position w) ob w \<Longrightarrow>
      x = (Returns (), w) \<or>
      (\<exists>opp. (opp_side opp = ''YES'' \<or> opp_side opp = ''NO'') \<and>
         x = execute_opportunity dumps cfg current_market env opp (get_position w) ob w)"
    by blast
  show ?thesis
    unfolding scan_and_execute_def Let_def
    by (simp split: option.splits) (intro conjI impI allI eo[OF _ refl]; simp)
qed


lemma scan_and_execute_both:
  assumes "current_market \<noteq> None"
    and "get_best_ask_yes ob = Some ask_yes" and "get_best_ask_no ob = Some ask_no"
    and "ask_yes \<noteq> 0" and "ask_no \<noteq> 0"
    and "ask_yes + s_avg_no (calculate_state (get_position w)) < get_profit_target cfg"
    and "ask_no + s_avg_yes (calculate_state (get_position w)) < get_profit_target cfg"
  shows "scan_and_execute dumps cfg current_market ob env w =
     execute_opportunity dumps cfg current_market env
       (if ask_yes + s_avg_no (calculate_state (get_position w))
             < ask_no + s_avg_yes (calculate_state (get_position w))
        then \<lparr>opp_side = ''YES'', opp_price = ask_yes,
               expected_pair_cost = ask_yes + s_avg_no (calculate_state (get_position w))\<rparr>
        else \<lparr>opp_side = ''NO'', opp_price = ask_no,
               expected_pair_cost = ask_no + s_avg_yes (calculate_state (get_position w))\<rparr>)
       (get_position w) ob w"
proof -
  have y: "yes_asks ob \<noteq> []" using assms(2) by (auto simp add: get_best_ask_yes_def)
  have n: "no_asks ob \<noteq> []" using assms(3) by (auto simp add: get_best_ask_no_def)
  show ?thesis
    using assms y n by (auto simp add: scan_and_execute_def Let_def not_decimal_def)
qed

lemma calculate_state_empty:
  "calculate_state (get_position empty_world) =
     \<lparr>s_avg_yes = 0, s_avg_no = 0, s_pair_cost = 0, s_delta = 0, s_locked_profit = 0\<rparr>"
  "delta (get_position empty_world) = 0"
  by (simp_all add: calculate_state_def position_defs empty_world_def)

subsection \<open>Venue rejection\<close>

text \<open>
  Claim C7.  When \<open>place_limit_order\<close> returns no order id (\<open>None\<close>, or the empty string,
  which \<open>not order_id\<close> treats alike), \<open>execute_trade\<close> returns \<open>None\<close> and leaves the stored
  position and the trade log as they were.
\<close>

theorem execute_trade_rejected:
  assumes "not_str (reply_order_id env)"
  shows "fst (execute_trade dumps current_market env w side prc qty) = Returns None \<and>
         position_key (snd (execute_trade dumps current_market env w side prc qty)) = position_key w \<and>
         trades_key (snd (execute_trade dumps current_market env w side prc qty)) = trades_key w"
  using assms
  by (cases current_market) (simp_all add: execute_trade_def Let_def place_limit_order_def)

theorem execute_trade_rejected_witness:
  "execute_trade trade_id (Some example_market) rejecting_env empty_world ''YES'' (2 / 5) 10 =
     (Returns None,
      \<lparr>position_key = None, trades_key = [],
       placed = [\<lparr>order_token = ''ty'', order_side = ''BUY'', order_price = 2 / 5,
                  order_size = 10, order_post_only = True\<rparr>]\<rparr>)"
  using execute_trade_rejected
    [of rejecting_env trade_id "Some example_market" empty_world "''YES''" "2 / 5" 10]
  by (simp add: rejecting_env_def not_str_def execute_trade_def Let_def place_limit_order_def
      example_market_def empty_world_def)

subsection \<open>Zero asks\<close>

text \<open>
  Claim C10.  On a scan tick where both ask lists are non-empty and the best YES ask or
  the best NO ask is 0, \<open>_scan_and_execute\<close> returns at once: no opportunity is evaluated,
  no order is sent, nothing is written.
\<close>

theorem scan_skips_zero_ask:
  assumes "yes_asks ob \<noteq> []" and "no_asks ob \<noteq> []"
    and "get_best_ask_yes ob = Some 0 \<or> get_best_ask_no ob = Some 0"
  shows "scan_and_execute dumps cfg current_market ob env w = (Returns (), w)"
  using assms by (auto simp add: scan_and_execute_def Let_def not_decimal_def)

theorem scan_skips_zero_ask_witness:
  "yes_asks zero_ask_book \<noteq> [] \<and> no_asks zero_ask_book \<noteq> [] \<and>
   get_best_ask_yes zero_ask_book = Some 0 \<and>
   scan_and_execute trade_id example_config (Some example_market) zero_ask_book example_env empty_world
     = (Returns (), empty_world)"
  using scan_skips_zero_ask
    [of zero_ask_book trade_id example_config "Some example_market" example_env empty_world]
  by (simp add: zero_ask_book_def get_best_ask_yes_def)

subsection \<open>Choice between two opportunities\<close>




subsection \<open>The delta cap\<close>

lemma cold_start_placed:
  "placed (snd (scan_and_execute trade_id example_config (Some example_market) cold_start_book
                  example_env empty_world)) =
     [buy_order example_market ''NO'' (2 / 5) 10]"
proof -
  have scan: "scan_and_execute trade_id example_config (Some example_market) cold_start_book
      example_env empty_world =
     execute_opportunity trade_id example_config (Some example_market) example_env
       \<lparr>opp_side = ''NO'', opp_price = 2 / 5, expected_pair_cost = 2 / 5\<rparr>
       (get_position empty_world) cold_start_book empty_world"
    using scan_and_execute_both
      [of "Some example_market" cold_start_book "55 / 100" "2 / 5" empty_world example_config
          trade_id example_env]
    by (simp add: cold_start_book_def get_best_ask_yes_def get_best_ask_no_def
        calculate_state_empty get_profit_target_def example_config_def)
  have cc: "check_constraints example_config ''NO'' (get_position empty_world) cold_start_book"
    by (simp add: check_constraints_def calculate_state_empty(2) example_config_def
        get_depth_def cold_start_book_def)
  show ?thesis
    unfolding scan execute_opportunity_placed execute_trade_placed
    by (simp add: cc) (simp add: example_config_def empty_world_def)
qed

text \<open>
  Claim C6.  When a scan tick changes anything (an order sent, the position, the trade
  log), it has sent exactly one order, a post-only buy of \<open>trade_size\<close> on a side YES or
  NO, and the position snapshot of the tick satisfies
  \<open>|delta + signed_qty| \<le> max_unhedged_delta\<close> with \<open>signed_qty = + trade_size\<close> for YES and
  \<open>- trade_size\<close> for NO.  A candidate that violates the cap is not executed:
  \<open>_execute_opportunity\<close> returns without sending an order or writing anything.
\<close>

theorem scan_respects_delta_cap:
  "(snd (scan_and_execute dumps cfg current_market ob env w) \<noteq> w \<longrightarrow>
      (\<exists>m side prc. current_market = Some m \<and> (side = ''YES'' \<or> side = ''NO'') \<and>
         placed (snd (scan_and_execute dumps cfg current_market ob env w)) =
           placed w @ [buy_order m side prc (trade_size cfg)] \<and>
         \<bar>delta (get_position w) + (if side = ''YES'' then trade_size cfg else - trade_size cfg)\<bar>
           \<le> max_unhedged_delta cfg)) \<and>
   (\<bar>delta p + (if opp_side opp = ''YES'' then trade_size cfg else - trade_size cfg)\<bar>
       > max_unhedged_delta cfg \<longrightarrow>
      execute_opportunity dumps cfg current_market env opp p ob w = (Returns (), w))"
proof (intro conjI impI)
  assume ch: "snd (scan_and_execute dumps cfg current_market ob env w) \<noteq> w"
  then have "scan_and_execute dumps cfg current_market ob env w \<noteq> (Returns (), w)" by auto
  with scan_and_execute_cases[of dumps cfg current_market ob env w]
  obtain opp where side: "opp_side opp = ''YES'' \<or> opp_side opp = ''NO''"
    and eq: "scan_and_execute dumps cfg current_market ob env w =
        execute_opportunity dumps cfg current_market env opp (get_position w) ob w"
    by blast
  have cc: "check_constraints cfg (opp_side opp) (get_position w) ob"
  proof (rule ccontr)
    assume "\<not> check_constraints cfg (opp_side opp) (get_position w) ob"
    then have "execute_opportunity dumps cfg current_market env opp (get_position w) ob w
        = (Returns (), w)"
      by (simp add: execute_opportunity_def)
    with ch eq show False by simp
  qed
  obtain m where m: "current_market = Some m"
  proof (cases current_market)
    case None
    then have "execute_opportunity dumps cfg current_market env opp (get_position w) ob w
        = (Returns (), w)"
      by (simp add: execute_opportunity_def execute_trade_def)
    with ch eq show ?thesis by simp
  next
    case (Some m)
    then show ?thesis by (rule that)
  qed
  have pl: "placed (snd (scan_and_execute dumps cfg current_market ob env w)) =
      placed w @ [buy_order m (opp_side opp) (opp_price opp) (trade_size cfg)]"
    unfolding eq execute_opportunity_placed execute_trade_placed using cc m by simp
  from m side pl check_constraints_delta[OF cc]
  show "\<exists>m side prc. current_market = Some m \<and> (side = ''YES'' \<or> side = ''NO'') \<and>
         placed (snd (scan_and_execute dumps cfg current_market ob env w)) =
           placed w @ [buy_order m side prc (trade_size cfg)] \<and>
         \<bar>delta (get_position w) + (if side = ''YES'' then trade_size cfg else - trade_size cfg)\<bar>
           \<le> max_unhedged_delta cfg"
    by blast
next
  assume "\<bar>delta p + (if opp_side opp = ''YES'' then trade_size cfg else - trade_size cfg)\<bar>
       > max_unhedged_delta cfg"
  then have "\<not> check_constraints cfg (opp_side opp) p ob"
    using check_constraints_delta[of cfg "opp_side opp" p ob] by auto
  then show "execute_opportunity dumps cfg current_market env opp p ob w = (Returns (), w)"
    by (simp add: execute_opportunity_def)
qed

theorem scan_respects_delta_cap_witness:
  "(\<exists>m side prc. Some example_market = Some m \<and> (side = ''YES'' \<or> side = ''NO'') \<and>
      placed (snd (scan_and_execute trade_id example_config (Some example_market) cold_start_book
                     example_env empty_world)) =
        placed empty_world @ [buy_order m side prc (trade_size example_config)] \<and>
      \<bar>delta (get_position empty_world)
         + (if side = ''YES'' then trade_size example_config else - trade_size example_config)\<bar>
        \<le> max_unhedged_delta example_config) \<and>
   execute_opportunity trade_id example_config (Some example_market) example_env
     \<lparr>opp_side = ''YES'', opp_price = 55 / 100, expected_pair_cost = 55 / 100\<rparr>
     capped_position cold_start_book empty_world = (Returns (), empty_world)"
proof -
  let ?opp = "\<lparr>opp_side = ''YES'', opp_price = 55 / 100, expected_pair_cost = 55 / 100\<rparr>"
  have "placed (snd (scan_and_execute trade_id example_config (Some example_market)
      cold_start_book example_env empty_world)) \<noteq> placed empty_world"
    unfolding cold_start_placed by (simp add: empty_world_def)
  then have h1: "snd (scan_and_execute trade_id example_config (Some example_market)
      cold_start_book example_env empty_world) \<noteq> empty_world"
    by auto
  have h2: "\<bar>delta capped_position
      + (if opp_side ?opp = ''YES'' then trade_size example_config else - trade_size example_config)\<bar>
      > max_unhedged_delta example_config"
    by (simp add: example_config_def capped_position_def position_defs)
  from scan_respects_delta_cap
    [of trade_id example_config "Some example_market" cold_start_book example_env empty_world
        capped_position ?opp] h1 h2
  show ?thesis by blast
qed


section \<open>Properties of the equalizer\<close>








section \<open>Properties of the risk engine\<close>

lemma get_mid_price_Some:
  "get_mid_price bids asks = Some m \<longleftrightarrow>
     bids \<noteq> [] \<and> asks \<noteq> [] \<and> m = (price (hd bids) + price (hd asks)) / 2"
  by (cases bids; cases asks) (auto simp add: get_mid_price_def)

lemma get_mid_price_None: "get_mid_price bids asks = None \<longleftrightarrow> bids = [] \<or> asks = []"
  by (cases bids; cases asks) (auto simp add: get_mid_price_def)

text \<open>
  Claim C4, as amended.  The stop-loss check triggers if and only if both sides have a
  top bid and a top ask, both mid prices (the mean of top bid and top ask) are different
  from zero, and \<open>qty_yes * mid_yes + qty_no * mid_no - (cost_yes + cost_no)\<close> is strictly
  less than \<open>- (cost_yes + cost_no) * bailout_stop_loss_percent / 100\<close>.  In particular
  the check reports no trigger when a mid is unavailable.
\<close>

theorem stop_loss_triggers_iff:
  "check_bailout_stop_loss cfg p ob \<longleftrightarrow>
     yes_bids ob \<noteq> [] \<and> yes_asks ob \<noteq> [] \<and> no_bids ob \<noteq> [] \<and> no_asks ob \<noteq> [] \<and>
     (price (hd (yes_bids ob)) + price (hd (yes_asks ob))) / 2 \<noteq> 0 \<and>
     (price (hd (no_bids ob)) + price (hd (no_asks ob))) / 2 \<noteq> 0 \<and>
     qty_yes p * ((price (hd (yes_bids ob)) + price (hd (yes_asks ob))) / 2)
       + qty_no p * ((price (hd (no_bids ob)) + price (hd (no_asks ob))) / 2)
       - (cost_yes p + cost_no p)
     < - ((cost_yes p + cost_no p) * (bailout_stop_loss_percent cfg / 100))"
proof (cases "get_mid_price (yes_bids ob) (yes_asks ob)")
  case None
  then have "\<not> check_bailout_stop_loss cfg p ob"
    by (simp add: check_bailout_stop_loss_def not_decimal_def Let_def)
  moreover from None have "yes_bids ob = [] \<or> yes_asks ob = []"
    by (simp add: get_mid_price_None)
  ultimately show ?thesis by blast
next
  case y: (Some my)
  show ?thesis
  proof (cases "get_mid_price (no_bids ob) (no_asks ob)")
    case None
    then have "\<not> check_bailout_stop_loss cfg p ob"
      by (simp add: check_bailout_stop_loss_def not_decimal_def Let_def)
    moreover from None have "no_bids ob = [] \<or> no_asks ob = []"
      by (simp add: get_mid_price_None)
    ultimately show ?thesis by blast
  next
    case n: (Some mn)
    have chk: "check_bailout_stop_loss cfg p ob \<longleftrightarrow>
        my \<noteq> 0 \<and> mn \<noteq> 0 \<and>
        qty_yes p * my + qty_no p * mn - (cost_yes p + cost_no p)
          < - ((cost_yes p + cost_no p) * (bailout_stop_loss_percent cfg / 100))"
      using y n by (simp add: check_bailout_stop_loss_def not_decimal_def Let_def)
    from y have y': "yes_bids ob \<noteq> []" "yes_asks ob \<noteq> []"
      "my = (price (hd (yes_bids ob)) + price (hd (yes_asks ob))) / 2"
      by (simp_all add: get_mid_price_Some)
    from n have n': "no_bids ob \<noteq> []" "no_asks ob \<noteq> []"
      "mn = (price (hd (no_bids ob)) + price (hd (no_asks ob))) / 2"
      by (simp_all add: get_mid_price_Some)
    show ?thesis
      unfolding chk using y'(1,2) n'(1,2) by (simp only: y'(3) n'(3)) simp
  qed
qed

text \<open>
  Claim C4 as stated fails when a mid price is zero: with YES quoted 0 bid, 0 ask and NO at
  0.30, the position of 100 and 100 shares bought for 102 shows a loss of 72, far beyond
  the threshold of 2.04, and the check reports no trigger.
\<close>

theorem stop_loss_zero_mid_counterexample:
  "get_mid_price (yes_bids zero_mid_book) (yes_asks zero_mid_book) = Some 0 \<and>
   get_mid_price (no_bids zero_mid_book) (no_asks zero_mid_book) = Some (3 / 10) \<and>
   qty_yes losing_position * 0 + qty_no losing_position * (3 / 10)
     - (cost_yes losing_position + cost_no losing_position)
     < - (cost_yes losing_position + cost_no losing_position)
         * bailout_stop_loss_percent example_config / 100 \<and>
   \<not> check_bailout_stop_loss example_config losing_position zero_mid_book"
  by (simp add: check_bailout_stop_loss_def get_mid_price_def zero_mid_book_def
      losing_position_def position_defs example_config_def not_decimal_def)

text \<open>With both mids at 0.30 the same position trips the stop-loss.\<close>

lemma stop_loss_scenario:
  "check_bailout_stop_loss example_config losing_position falling_book"
  by (simp add: check_bailout_stop_loss_def get_mid_price_def falling_book_def
      losing_position_def position_defs example_config_def not_decimal_def)

end
